theory Spec2Isabelle
  imports Complex_Main
begin

section \<open>JavaScript numbers and operators\<close>

text \<open>
  The geometry module computes with JavaScript numbers. They are modelled by the
  real numbers: every value is finite and arithmetic is exact, so rounding error,
  \<open>NaN\<close> and the infinities are outside the model. An optional field
  (\<open>rotation?: number\<close>) is an \<open>option\<close>; \<open>None\<close> stands for
  \<open>undefined\<close> or \<open>null\<close>.
\<close>

definition js_trunc :: "real \<Rightarrow> int" where
  "js_trunc v = (if 0 \<le> v then \<lfloor>v\<rfloor> else \<lceil>v\<rceil>)"

text \<open>The remainder operator \<open>a % b\<close>: the quotient is truncated towards zero, so the
  result carries the sign of the dividend.\<close>

definition js_rem :: "real \<Rightarrow> real \<Rightarrow> real" where
  "js_rem a b = a - b * of_int (js_trunc (a / b))"

text \<open>\<open>Math.round\<close>: the nearest integer, a tie going towards plus infinity.\<close>

definition js_round :: "real \<Rightarrow> real" where
  "js_round v = of_int \<lfloor>v + 1 / 2\<rfloor>"

text \<open>\<open>v || d\<close> on an optional number: \<open>undefined\<close> and \<open>0\<close> are falsy.\<close>

definition or_default :: "real option \<Rightarrow> real \<Rightarrow> real" where
  "or_default v d = (case v of None \<Rightarrow> d | Some n \<Rightarrow> if n = 0 then d else n)"

text \<open>A destructuring default (\<open>{ rotation = 0 }\<close>): only \<open>undefined\<close> is replaced.\<close>

definition destructure_default :: "real option \<Rightarrow> real \<Rightarrow> real" where
  "destructure_default v d = (case v of None \<Rightarrow> d | Some n \<Rightarrow> n)"

section \<open>Data model of the geometry module\<close>

record Dimensions =
  dim_width :: real
  dim_height :: real

record CropArea =
  crop_x :: real
  crop_y :: real
  crop_width :: real
  crop_height :: real

record EditHistory =
  eh_cropArea :: "CropArea option"
  eh_rotation :: "real option"
  eh_scale :: "real option"
  eh_offsetX :: "real option"
  eh_offsetY :: "real option"

record SourceRect =
  rect_x :: real
  rect_y :: real
  rect_width :: real
  rect_height :: real

record GeometricTransform =
  gt_sourceRect :: SourceRect
  gt_scaleToFit :: real
  gt_finalScale :: real
  gt_drawWidth :: real
  gt_drawHeight :: real
  gt_drawX :: real
  gt_drawY :: real
  gt_pdfDrawX :: real
  gt_pdfDrawY :: real
  gt_pdfRotation :: real
  gt_offsetX :: real
  gt_offsetY :: real

record AffineMatrix =
  am_a :: real
  am_b :: real
  am_c :: real
  am_d :: real
  am_e :: real
  am_f :: real

section \<open>Rotation-space mapping\<close>

text \<open>\<open>normalizeRotation\<close>: \<open>((rotation % 360) + 360) % 360\<close>.\<close>

definition normalizeRotation :: "real \<Rightarrow> real" where
  "normalizeRotation r = js_rem (js_rem r 360 + 360) 360"

text \<open>\<open>Math.round(normalizedRotation / 90) * 90\<close>, the value the two mapping
  functions switch on.\<close>

definition rotationCase :: "real \<Rightarrow> real" where
  "rotationCase r = js_round (normalizeRotation r / 90) * 90"

text \<open>A \<open>console.warn\<close> of the mapping functions, carrying the rotation case that
  no branch of the switch matched.\<close>

datatype console_event = UnexpectedRotation real

text \<open>\<open>forwardMapCropToRotation\<close> (original page space to rotated space), with the
  warnings it records.\<close>

definition forwardMapCropToRotation_logged ::
    "CropArea \<Rightarrow> real \<Rightarrow> CropArea \<times> console_event list" where
  "forwardMapCropToRotation_logged crop r =
     (let rc = rotationCase r in
      if rc = 0 \<or> rc = 360 then (crop, [])
      else if rc = 90 then
        (\<lparr>crop_x = crop_y crop,
          crop_y = 1 - (crop_x crop + crop_width crop),
          crop_width = crop_height crop,
          crop_height = crop_width crop\<rparr>, [])
      else if rc = 180 then
        (\<lparr>crop_x = 1 - (crop_x crop + crop_width crop),
          crop_y = 1 - (crop_y crop + crop_height crop),
          crop_width = crop_width crop,
          crop_height = crop_height crop\<rparr>, [])
      else if rc = 270 then
        (\<lparr>crop_x = 1 - (crop_y crop + crop_height crop),
          crop_y = crop_x crop,
          crop_width = crop_height crop,
          crop_height = crop_width crop\<rparr>, [])
      else (crop, [UnexpectedRotation rc]))"

definition forwardMapCropToRotation :: "CropArea \<Rightarrow> real \<Rightarrow> CropArea" where
  "forwardMapCropToRotation crop r = fst (forwardMapCropToRotation_logged crop r)"

text \<open>\<open>remapCropForRotation\<close> (rotated space back to original page space), with the
  warnings it records.\<close>

definition remapCropForRotation_logged ::
    "CropArea \<Rightarrow> real \<Rightarrow> CropArea \<times> console_event list" where
  "remapCropForRotation_logged crop r =
     (let rc = rotationCase r in
      if rc = 0 \<or> rc = 360 then (crop, [])
      else if rc = 90 then
        (\<lparr>crop_x = 1 - (crop_y crop + crop_height crop),
          crop_y = crop_x crop,
          crop_width = crop_height crop,
          crop_height = crop_width crop\<rparr>, [])
      else if rc = 180 then
        (\<lparr>crop_x = 1 - (crop_x crop + crop_width crop),
          crop_y = 1 - (crop_y crop + crop_height crop),
          crop_width = crop_width crop,
          crop_height = crop_height crop\<rparr>, [])
      else if rc = 270 then
        (\<lparr>crop_x = crop_y crop,
          crop_y = 1 - (crop_x crop + crop_width crop),
          crop_width = crop_height crop,
          crop_height = crop_width crop\<rparr>, [])
      else (crop, [UnexpectedRotation rc]))"

definition remapCropForRotation :: "CropArea \<Rightarrow> real \<Rightarrow> CropArea" where
  "remapCropForRotation crop r = fst (remapCropForRotation_logged crop r)"

definition remapCropBetweenRotations :: "CropArea \<Rightarrow> real \<Rightarrow> real \<Rightarrow> CropArea" where
  "remapCropBetweenRotations crop oldRotation newRotation =
     (let cropInOriginalSpace = remapCropForRotation crop oldRotation;
          cropInNewSpace = forwardMapCropToRotation cropInOriginalSpace newRotation
      in cropInNewSpace)"

section \<open>Transform builder\<close>

text \<open>
  \<open>buildGeometricTransform\<close>. \<open>editHistory || {}\<close> turns an absent edit into
  the record without fields, whose numeric fields then take their destructuring defaults.
  Where the source divides by a zero width or height JavaScript yields an infinity
  or \<open>NaN\<close>, which the model does not represent; the theorems below speak about
  \<open>gt_scaleToFit\<close> only where the divisors are non-zero or the division is not reached.
  \<open>Math.cos\<close>, \<open>Math.sin\<close> and \<open>Math.PI\<close> are the real \<open>cos\<close>, \<open>sin\<close>
  and \<open>pi\<close>; they enter \<open>gt_pdfDrawX\<close> and \<open>gt_pdfDrawY\<close> only, every other
  field is rational arithmetic and evaluates by simplification.
\<close>

definition buildGeometricTransform ::
    "Dimensions \<Rightarrow> Dimensions \<Rightarrow> EditHistory option \<Rightarrow> GeometricTransform" where
  "buildGeometricTransform originalDims targetDims editHistory =
     (let eh = (case editHistory of
                  None \<Rightarrow> \<lparr>eh_cropArea = None, eh_rotation = None, eh_scale = None,
                            eh_offsetX = None, eh_offsetY = None\<rparr>
                | Some e \<Rightarrow> e);
          cropArea = eh_cropArea eh;
          rotation = destructure_default (eh_rotation eh) 0;
          scale = destructure_default (eh_scale eh) 100;
          offsetX = destructure_default (eh_offsetX eh) 0;
          offsetY = destructure_default (eh_offsetY eh) 0;
          sourceRect =
            (case cropArea of
               None \<Rightarrow> \<lparr>rect_x = 0, rect_y = 0,
                         rect_width = dim_width originalDims,
                         rect_height = dim_height originalDims\<rparr>
             | Some c \<Rightarrow>
                 (let cropInOriginalSpace =
                        (if rotation \<noteq> 0 then remapCropForRotation c rotation else c)
                  in \<lparr>rect_x = crop_x cropInOriginalSpace * dim_width originalDims,
                      rect_y = crop_y cropInOriginalSpace * dim_height originalDims,
                      rect_width = crop_width cropInOriginalSpace * dim_width originalDims,
                      rect_height = crop_height cropInOriginalSpace * dim_height originalDims\<rparr>));
          normalizedRotation = normalizeRotation rotation;
          isRotated90or270 = (normalizedRotation = 90 \<or> normalizedRotation = 270);
          scaleToFit =
            (if rotation \<noteq> 0 then
               (if isRotated90or270 then
                  (let scaleX = dim_width targetDims / rect_height sourceRect;
                       scaleY = dim_height targetDims / rect_width sourceRect
                   in min scaleX scaleY * 0.90)
                else
                  (let scaleX = dim_width targetDims / rect_width sourceRect;
                       scaleY = dim_height targetDims / rect_height sourceRect
                   in min scaleX scaleY * 0.90))
             else 1);
          userScaleFactor = scale / 100;
          finalScale = scaleToFit * userScaleFactor;
          drawWidth = rect_width sourceRect * finalScale;
          drawHeight = rect_height sourceRect * finalScale;
          drawX = - drawWidth / 2;
          drawY = - drawHeight / 2;
          radians = (- rotation * pi) / 180;
          cs = cos radians;
          sn = sin radians;
          vectorX = - drawWidth / 2;
          vectorY = - drawHeight / 2;
          rotatedVectorX = vectorX * cs - vectorY * sn;
          rotatedVectorY = vectorX * sn + vectorY * cs;
          pageCenterX = dim_width targetDims / 2;
          pageCenterY = dim_height targetDims / 2;
          pdfDrawX = pageCenterX + rotatedVectorX + offsetX;
          pdfDrawY = pageCenterY + rotatedVectorY - offsetY
      in \<lparr>gt_sourceRect = sourceRect,
          gt_scaleToFit = scaleToFit,
          gt_finalScale = finalScale,
          gt_drawWidth = drawWidth,
          gt_drawHeight = drawHeight,
          gt_drawX = drawX,
          gt_drawY = drawY,
          gt_pdfDrawX = pdfDrawX,
          gt_pdfDrawY = pdfDrawY,
          gt_pdfRotation = - rotation,
          gt_offsetX = offsetX,
          gt_offsetY = offsetY\<rparr>)"

section \<open>Normalizer\<close>

text \<open>
  \<open>normalizeEditHistory\<close> works in four numbered steps; each is a definition of its
  own here, in the order of the source. The \<open>console.warn\<close> and \<open>console.error\<close>
  calls of the normalizer change no value and are left out. No statement of the source
  function throws, so the model returns a plain \<open>EditHistory\<close>.
\<close>

text \<open>Step 1, the body of \<open>if (editHistory.cropArea)\<close>.\<close>

definition normalizeCropArea :: "CropArea \<Rightarrow> CropArea" where
  "normalizeCropArea crop =
     (let MIN_CROP_SIZE = 0.01;
          width0 = max MIN_CROP_SIZE (max 0 (min 1 (crop_width crop)));
          height0 = max MIN_CROP_SIZE (max 0 (min 1 (crop_height crop)));
          x0 = max 0 (min 1 (crop_x crop));
          y0 = max 0 (min 1 (crop_y crop));
          (x1, width1) =
            (if x0 + width0 > 1 then
               (let newX = 1 - width0 in if newX \<ge> 0 then (newX, width0) else (0, 1))
             else (x0, width0));
          (y1, height1) =
            (if y0 + height0 > 1 then
               (let newY = 1 - height0 in if newY \<ge> 0 then (newY, height0) else (0, 1))
             else (y0, height0))
      in if x1 < 0 \<or> y1 < 0 \<or> width1 \<le> 0 \<or> height1 \<le> 0
            \<or> x1 + width1 > 1 \<or> y1 + height1 > 1
         then \<lparr>crop_x = 0, crop_y = 0, crop_width = 1, crop_height = 1\<rparr>
         else \<lparr>crop_x = x1, crop_y = y1, crop_width = width1, crop_height = height1\<rparr>)"

text \<open>Step 2: reduce into \<open>[0, 360)\<close>, take the shortest signed path, round to 0.1.\<close>

definition normalizeRotationField :: "real option \<Rightarrow> real" where
  "normalizeRotationField rot =
     (let r0 = or_default rot 0;
          r1 = js_rem (js_rem r0 360 + 360) 360;
          r2 = (if r1 > 180 then r1 - 360 else r1)
      in js_round (r2 * 10) / 10)"

text \<open>Step 3: clamp the scale between \<open>MIN_SCALE\<close> and \<open>MAX_SCALE\<close>.\<close>

definition normalizeScaleField :: "real option \<Rightarrow> real" where
  "normalizeScaleField sc =
     (let MIN_SCALE = 10;
          MAX_SCALE = 500;
          s0 = or_default sc 100;
          s1 = (if s0 < MIN_SCALE then MIN_SCALE else s0)
      in if s1 > MAX_SCALE then MAX_SCALE else s1)"

text \<open>Step 4, for one axis: \<open>Math.sign(offset) * maxOffset\<close> when the offset is too
  large.\<close>

definition normalizeOffsetField :: "real \<Rightarrow> real option \<Rightarrow> real" where
  "normalizeOffsetField maxOffset off =
     (let v = or_default off 0
      in if \<bar>v\<bar> > maxOffset then sgn v * maxOffset else v)"

definition normalizeEditHistory :: "Dimensions \<Rightarrow> EditHistory option \<Rightarrow> EditHistory" where
  "normalizeEditHistory originalDims editHistory =
     (case editHistory of
        None \<Rightarrow> \<lparr>eh_cropArea = None, eh_rotation = Some 0, eh_scale = Some 100,
                  eh_offsetX = Some 0, eh_offsetY = Some 0\<rparr>
      | Some e \<Rightarrow>
          (let normalizedCropArea = map_option normalizeCropArea (eh_cropArea e);
               normalizedRotation = normalizeRotationField (eh_rotation e);
               normalizedScale = normalizeScaleField (eh_scale e);
               maxOffsetX = dim_width originalDims * 0.5;
               maxOffsetY = dim_height originalDims * 0.5;
               normalizedOffsetX = normalizeOffsetField maxOffsetX (eh_offsetX e);
               normalizedOffsetY = normalizeOffsetField maxOffsetY (eh_offsetY e)
           in \<lparr>eh_cropArea = normalizedCropArea,
               eh_rotation = Some normalizedRotation,
               eh_scale = Some normalizedScale,
               eh_offsetX = Some normalizedOffsetX,
               eh_offsetY = Some normalizedOffsetY\<rparr>))"

section \<open>Affine composer and canonical transform\<close>

definition buildAffineMatrix ::
    "real \<Rightarrow> real \<Rightarrow> real \<Rightarrow> real \<Rightarrow> real \<Rightarrow> real \<Rightarrow> AffineMatrix" where
  "buildAffineMatrix centerX centerY rotation scale offsetX offsetY =
     (let radians = (- rotation * pi) / 180;
          cs = cos radians;
          sn = sin radians;
          a = scale * cs;
          b = scale * sn;
          c = - scale * sn;
          d = scale * cs;
          e = centerX + offsetX - (centerX * a + centerY * c);
          f = centerY + offsetY - (centerX * b + centerY * d)
      in \<lparr>am_a = a, am_b = b, am_c = c, am_d = d, am_e = e, am_f = f\<rparr>)"

text \<open>\<open>buildCanonicalTransform\<close> returns the transform's fields together with
  \<open>affineMatrix\<close>; the model returns the pair.\<close>

definition buildCanonicalTransform ::
    "Dimensions \<Rightarrow> Dimensions \<Rightarrow> EditHistory option \<Rightarrow> GeometricTransform \<times> AffineMatrix" where
  "buildCanonicalTransform originalDims targetDims editHistory =
     (let normalized = normalizeEditHistory originalDims editHistory;
          transform = buildGeometricTransform originalDims targetDims (Some normalized);
          centerX = dim_width targetDims / 2;
          centerY = dim_height targetDims / 2;
          affineMatrix = buildAffineMatrix centerX centerY
                           (or_default (eh_rotation normalized) 0)
                           (gt_finalScale transform)
                           (or_default (eh_offsetX normalized) 0)
                           (or_default (eh_offsetY normalized) 0)
      in (transform, affineMatrix))"

section \<open>Canvas renderer adapter\<close>

text \<open>
  The numeric part of \<open>renderPageToCanvas\<close> in the canvas renderer adapter: steps 1
  to 4, before anything is drawn. The adapter's own \<open>normalizeRotation\<close> is the
  same expression as the geometry module's. \<open>origW\<close> and \<open>origH\<close> are the
  original dimensions the adapter reads from the source page.
\<close>

definition clampRect :: "real \<Rightarrow> real \<Rightarrow> real \<Rightarrow> real \<Rightarrow> real \<Rightarrow> real \<Rightarrow> SourceRect" where
  "clampRect px py w h maxW maxH =
     (let cx = max 0 (min px (maxW - 1));
          cy = max 0 (min py (maxH - 1));
          cw = max 1 (min w (maxW - cx));
          ch = max 1 (min h (maxH - cy))
      in \<lparr>rect_x = cx, rect_y = cy, rect_width = cw, rect_height = ch\<rparr>)"

definition calculateSourceRect :: "CropArea option \<Rightarrow> real \<Rightarrow> real \<Rightarrow> real \<Rightarrow> SourceRect" where
  "calculateSourceRect crop rotation origW origH =
     (case crop of
        None \<Rightarrow> \<lparr>rect_x = 0, rect_y = 0, rect_width = origW, rect_height = origH\<rparr>
      | Some c \<Rightarrow>
          (let isSwapped = (rotation = 90 \<or> rotation = 270);
               viewW = (if isSwapped then origH else origW);
               viewH = (if isSwapped then origW else origH);
               vx = crop_x c * viewW;
               vy = crop_y c * viewH;
               vw = crop_width c * viewW;
               vh = crop_height c * viewH
           in if rotation = 0 then clampRect vx vy vw vh origW origH
              else if rotation = 90 then clampRect vy (origH - vx - vw) vh vw origW origH
              else if rotation = 180 then
                clampRect (origW - vx - vw) (origH - vy - vh) vw vh origW origH
              else if rotation = 270 then clampRect (origW - vy - vh) vx vh vw origW origH
              else clampRect vx vy vw vh origW origH))"

record RenderPlan =
  rp_sourceRect :: SourceRect
  rp_fitScale :: real
  rp_finalScale :: real
  rp_drawW :: real
  rp_drawH :: real

definition renderPageToCanvas_plan ::
    "Dimensions \<Rightarrow> real \<Rightarrow> real \<Rightarrow> EditHistory \<Rightarrow> RenderPlan" where
  "renderPageToCanvas_plan targetCanvas origW origH applySettings =
     (let rotation = normalizeRotation (or_default (eh_rotation applySettings) 0);
          userScale = or_default (eh_scale applySettings) 100 / 100;
          cropArea = eh_cropArea applySettings;
          sourceRect = calculateSourceRect cropArea rotation origW origH;
          isSwapped = (rotation = 90 \<or> rotation = 270);
          contentW = (if isSwapped then rect_height sourceRect else rect_width sourceRect);
          contentH = (if isSwapped then rect_width sourceRect else rect_height sourceRect);
          fitScale = min ((dim_width targetCanvas * 0.95) / contentW)
                         ((dim_height targetCanvas * 0.95) / contentH);
          finalScale = fitScale * userScale;
          drawW = rect_width sourceRect * finalScale;
          drawH = rect_height sourceRect * finalScale
      in \<lparr>rp_sourceRect = sourceRect, rp_fitScale = fitScale, rp_finalScale = finalScale,
          rp_drawW = drawW, rp_drawH = drawH\<rparr>)"

section \<open>Print recipe validation\<close>

text \<open>
  A recipe as \<open>validateRecipe\<close> reads it. Only the fields the validator looks at are
  kept; \<open>rc_sourceFileName\<close> is \<open>recipe.source?.fileName\<close> and
  \<open>pg_transforms\<close> is \<open>page.transforms\<close>, so that \<open>page.transforms?.rotation\<close>
  is the \<open>Option.bind\<close> of the two. A field that may be missing is an \<open>option\<close>. Each message the validator
  pushes is a constructor of \<open>recipe_error\<close>, with the page number and the offending
  value the message prints.
\<close>

record PageTransforms =
  tr_rotation :: "real option"
  tr_scale :: "real option"
  tr_crop :: "CropArea option"

record RecipePage =
  pg_transforms :: "PageTransforms option"

record Recipe =
  rc_version :: "string option"
  rc_sourceFileName :: "string option"
  rc_pages :: "RecipePage list option"

datatype recipe_error =
    MissingVersion
  | MissingSourceFileName
  | NoPages
  | InvalidRotation nat real
  | InvalidScale nat real
  | InvalidCropArea nat
  | CropExceedsBounds nat

record ValidationResult =
  vr_valid :: bool
  vr_errors :: "recipe_error list"

text \<open>\<open>!s\<close> for an optional string: \<open>undefined\<close> and the empty string are falsy.\<close>

definition falsy_string :: "string option \<Rightarrow> bool" where
  "falsy_string s = (case s of None \<Rightarrow> True | Some t \<Rightarrow> t = [])"

text \<open>The body of the \<open>forEach\<close> callback: the errors pushed for the page at
  \<open>index\<close>, in the order they are pushed. In \<open>v && cond\<close> with an optional number
  on the left, the condition is only looked at for a number other than \<open>0\<close>.\<close>

definition validatePage :: "nat \<Rightarrow> RecipePage \<Rightarrow> recipe_error list" where
  "validatePage index page =
     (let rotation = Option.bind (pg_transforms page) tr_rotation;
          scale = Option.bind (pg_transforms page) tr_scale;
          crop = Option.bind (pg_transforms page) tr_crop
      in (case rotation of
            None \<Rightarrow> []
          | Some r \<Rightarrow>
              if r \<noteq> 0 \<and> r \<notin> set [0, 90, 180, 270]
              then [InvalidRotation (index + 1) r] else [])
       @ (case scale of
            None \<Rightarrow> []
          | Some sc \<Rightarrow>
              if sc \<noteq> 0 \<and> (sc < 10 \<or> sc > 500)
              then [InvalidScale (index + 1) sc] else [])
       @ (case crop of
            None \<Rightarrow> []
          | Some c \<Rightarrow>
              (if crop_x c < 0 \<or> crop_y c < 0 \<or> crop_width c \<le> 0 \<or> crop_height c \<le> 0
               then [InvalidCropArea (index + 1)] else [])
            @ (if crop_x c + crop_width c > 1.01 \<or> crop_y c + crop_height c > 1.01
               then [CropExceedsBounds (index + 1)] else [])))"

fun validatePages :: "nat \<Rightarrow> RecipePage list \<Rightarrow> recipe_error list" where
  "validatePages index [] = []"
| "validatePages index (page # rest) = validatePage index page @ validatePages (index + 1) rest"

definition validateRecipe :: "Recipe \<Rightarrow> ValidationResult" where
  "validateRecipe recipe =
     (let errors =
            (if falsy_string (rc_version recipe) then [MissingVersion] else [])
          @ (if falsy_string (rc_sourceFileName recipe) then [MissingSourceFileName] else [])
          @ (if rc_pages recipe = None \<or> rc_pages recipe = Some [] then [NoPages] else [])
          @ (case rc_pages recipe of None \<Rightarrow> [] | Some pages \<Rightarrow> validatePages 0 pages)
      in \<lparr>vr_valid = (errors = []), vr_errors = errors\<rparr>)"

section \<open>Properties stated about the normalizer\<close>

text \<open>The bounds a normalized crop has to meet: position and size inside the unit
  square, each side at least \<open>MIN_CROP_SIZE\<close>, the rectangle inside the page.\<close>

definition crop_in_bounds :: "CropArea \<Rightarrow> bool" where
  "crop_in_bounds c \<longleftrightarrow>
     0 \<le> crop_x c \<and> crop_x c \<le> 1 \<and> 0 \<le> crop_y c \<and> crop_y c \<le> 1 \<and>
     0.01 \<le> crop_width c \<and> crop_width c \<le> 1 \<and> 0.01 \<le> crop_height c \<and> crop_height c \<le> 1 \<and>
     crop_x c + crop_width c \<le> 1 \<and> crop_y c + crop_height c \<le> 1"

section \<open>Facts about the number model\<close>

lemma rotationCase_0: "rotationCase 0 = 0"
  by (simp add: rotationCase_def normalizeRotation_def js_rem_def js_trunc_def js_round_def)

lemma rotationCase_90: "rotationCase 90 = 90"
  by (simp add: rotationCase_def normalizeRotation_def js_rem_def js_trunc_def js_round_def)

lemma rotationCase_180: "rotationCase 180 = 180"
  by (simp add: rotationCase_def normalizeRotation_def js_rem_def js_trunc_def js_round_def)

lemma rotationCase_270: "rotationCase 270 = 270"
  by (simp add: rotationCase_def normalizeRotation_def js_rem_def js_trunc_def js_round_def)

lemma js_rem_nonneg:
  assumes "0 \<le> a" "0 < b"
  shows "0 \<le> js_rem a b \<and> js_rem a b < b"
proof -
  have q: "0 \<le> a / b" using assms by simp
  have 1: "of_int \<lfloor>a / b\<rfloor> \<le> a / b" by linarith
  have 2: "a / b < of_int \<lfloor>a / b\<rfloor> + 1" by linarith
  from 1 assms have "of_int \<lfloor>a / b\<rfloor> * b \<le> a"
    using pos_le_divide_eq [of b "of_int \<lfloor>a / b\<rfloor>" a] by blast
  moreover from 2 assms have "a < (of_int \<lfloor>a / b\<rfloor> + 1) * b"
    using pos_divide_less_eq [of b a "of_int \<lfloor>a / b\<rfloor> + 1"] by blast
  ultimately show ?thesis using q by (simp add: js_rem_def js_trunc_def algebra_simps)
qed

lemma js_rem_neg:
  assumes "a < 0" "0 < b"
  shows "- b < js_rem a b \<and> js_rem a b \<le> 0"
proof -
  have q: "\<not> 0 \<le> a / b" using assms by (simp add: divide_less_0_iff not_le)
  have 1: "a / b \<le> of_int \<lceil>a / b\<rceil>" by linarith
  have 2: "of_int \<lceil>a / b\<rceil> - 1 < a / b" by linarith
  from 1 assms have "a \<le> of_int \<lceil>a / b\<rceil> * b"
    using pos_divide_le_eq [of b a "of_int \<lceil>a / b\<rceil>"] by blast
  moreover from 2 assms have "(of_int \<lceil>a / b\<rceil> - 1) * b < a"
    using pos_less_divide_eq [of b "of_int \<lceil>a / b\<rceil> - 1" a] by blast
  ultimately show ?thesis using q by (simp add: js_rem_def js_trunc_def algebra_simps)
qed

lemma js_rem_small: 
  assumes "\<bar>a\<bar> < b"
  shows "js_rem a b = a"
proof -
  have b: "0 < b" using assms by linarith
  have "- 1 < a / b" "a / b < 1" using assms b by (simp_all add: pos_less_divide_eq pos_divide_less_eq abs_less_iff)
  then have "js_trunc (a / b) = 0" unfolding js_trunc_def 
    by (auto simp: floor_eq_iff ceiling_eq_iff)
  then show ?thesis by (simp add: js_rem_def)
qed

lemma normalizeRotation_range: "0 \<le> normalizeRotation r \<and> normalizeRotation r < 360"
proof -
  have "- 360 < js_rem r 360 \<and> js_rem r 360 < 360"
    using js_rem_nonneg [of r 360] js_rem_neg [of r 360] by (cases "0 \<le> r") auto
  then have "0 \<le> js_rem r 360 + 360" by simp
  then show ?thesis unfolding normalizeRotation_def using js_rem_nonneg [of "js_rem r 360 + 360" 360] by simp
qed

lemma js_round_eq_iff: "js_round v = of_int k \<longleftrightarrow> of_int k - 1/2 \<le> v \<and> v < of_int k + 1/2"
  unfolding js_round_def by (simp add: floor_eq_iff) linarith

lemma rotationCase_cases:
  "rotationCase r =
     (let n = normalizeRotation r in
      if n < 45 then 0 else if n < 135 then 90 else if n < 225 then 180
      else if n < 315 then 270 else 360)"
proof -
  define n where "n = normalizeRotation r"
  have rng: "0 \<le> n" "n < 360" using normalizeRotation_range [of r] by (simp_all add: n_def)
  have k: "\<And>k::int. of_int k - 1/2 \<le> n / 90 \<and> n / 90 < of_int k + 1/2 \<Longrightarrow> js_round (n / 90) * 90 = of_int k * 90"
    using js_round_eq_iff by simp
  consider "n < 45" | "45 \<le> n" "n < 135" | "135 \<le> n" "n < 225" | "225 \<le> n" "n < 315" | "315 \<le> n"
    by linarith
  then have "js_round (n / 90) * 90 = (if n < 45 then 0 else if n < 135 then 90 else if n < 225 then 180
      else if n < 315 then 270 else 360)"
  proof cases
    case 1 then show ?thesis using k [of 0] rng by simp
  next
    case 2 then show ?thesis using k [of 1] rng by simp
  next
    case 3 then show ?thesis using k [of 2] rng by simp
  next
    case 4 then show ?thesis using k [of 3] rng by simp
  next
    case 5 then show ?thesis using k [of 4] rng by simp
  qed
  then show ?thesis by (simp add: rotationCase_def n_def Let_def)
qed


section \<open>Facts about the steps of the normalizer\<close>

lemma shift_axis:
  fixes p s :: real
  assumes "0 \<le> s" "s \<le> 1"
  shows "(if p + s > 1 then (let n = 1 - s in if n \<ge> 0 then (n, s) else (0, 1)) else (p, s))
         = (if p + s > 1 then 1 - s else p, s)"
  using assms by (simp add: Let_def)

lemma normalizeCropArea_eq:
  "normalizeCropArea c =
    (let w0 = max 0.01 (max 0 (min 1 (crop_width c)));
         h0 = max 0.01 (max 0 (min 1 (crop_height c)));
         x0 = max 0 (min 1 (crop_x c));
         y0 = max 0 (min 1 (crop_y c))
     in \<lparr>crop_x = (if x0 + w0 > 1 then 1 - w0 else x0),
         crop_y = (if y0 + h0 > 1 then 1 - h0 else y0),
         crop_width = w0, crop_height = h0\<rparr>)"
proof -
  define w0 where "w0 = max (0.01::real) (max 0 (min 1 (crop_width c)))"
  define h0 where "h0 = max (0.01::real) (max 0 (min 1 (crop_height c)))"
  define x0 where "x0 = max (0::real) (min 1 (crop_x c))"
  define y0 where "y0 = max (0::real) (min 1 (crop_y c))"
  have w0: "0.01 \<le> w0" "w0 \<le> 1" and h0: "0.01 \<le> h0" "h0 \<le> 1"
    and x0: "0 \<le> x0" "x0 \<le> 1" and y0: "0 \<le> y0" "y0 \<le> 1"
    by (simp_all add: w0_def h0_def x0_def y0_def)
  have sx: "(if x0 + w0 > 1 then (let n = 1 - w0 in if n \<ge> 0 then (n, w0) else (0, 1)) else (x0, w0))
         = (if x0 + w0 > 1 then 1 - w0 else x0, w0)"
    using w0 by (intro shift_axis) simp_all
  have sy: "(if y0 + h0 > 1 then (let n = 1 - h0 in if n \<ge> 0 then (n, h0) else (0, 1)) else (y0, h0))
         = (if y0 + h0 > 1 then 1 - h0 else y0, h0)"
    using h0 by (intro shift_axis) simp_all
  have ok: "\<not> ((if x0 + w0 > 1 then 1 - w0 else x0) < 0 \<or> (if y0 + h0 > 1 then 1 - h0 else y0) < 0
        \<or> w0 \<le> 0 \<or> h0 \<le> 0
        \<or> (if x0 + w0 > 1 then 1 - w0 else x0) + w0 > 1
        \<or> (if y0 + h0 > 1 then 1 - h0 else y0) + h0 > 1)"
    using w0 h0 x0 y0 by auto
  have "normalizeCropArea c =
     (case (if x0 + w0 > 1 then (let n = 1 - w0 in if n \<ge> 0 then (n, w0) else (0, 1)) else (x0, w0)) of
       (x1, width1) \<Rightarrow>
        (case (if y0 + h0 > 1 then (let n = 1 - h0 in if n \<ge> 0 then (n, h0) else (0, 1)) else (y0, h0)) of
          (y1, height1) \<Rightarrow>
            if x1 < 0 \<or> y1 < 0 \<or> width1 \<le> 0 \<or> height1 \<le> 0
                \<or> x1 + width1 > 1 \<or> y1 + height1 > 1
            then \<lparr>crop_x = 0, crop_y = 0, crop_width = 1, crop_height = 1\<rparr>
            else \<lparr>crop_x = x1, crop_y = y1, crop_width = width1, crop_height = height1\<rparr>))"
    unfolding normalizeCropArea_def w0_def h0_def x0_def y0_def Let_def ..
  also have "\<dots> = \<lparr>crop_x = (if x0 + w0 > 1 then 1 - w0 else x0),
         crop_y = (if y0 + h0 > 1 then 1 - h0 else y0),
         crop_width = w0, crop_height = h0\<rparr>"
    unfolding sx sy using ok by simp
  finally show ?thesis
    unfolding w0_def h0_def x0_def y0_def Let_def .
qed

lemma normalizeCropArea_bounds: "crop_in_bounds (normalizeCropArea c)"
proof -
  define w0 where "w0 = max (0.01::real) (max 0 (min 1 (crop_width c)))"
  define h0 where "h0 = max (0.01::real) (max 0 (min 1 (crop_height c)))"
  define x0 where "x0 = max (0::real) (min 1 (crop_x c))"
  define y0 where "y0 = max (0::real) (min 1 (crop_y c))"
  have b: "0.01 \<le> w0" "w0 \<le> 1" "0.01 \<le> h0" "h0 \<le> 1" "0 \<le> x0" "x0 \<le> 1" "0 \<le> y0" "y0 \<le> 1"
    by (simp_all add: w0_def h0_def x0_def y0_def)
  have eq: "normalizeCropArea c =
      \<lparr>crop_x = (if x0 + w0 > 1 then 1 - w0 else x0),
       crop_y = (if y0 + h0 > 1 then 1 - h0 else y0),
       crop_width = w0, crop_height = h0\<rparr>"
    unfolding normalizeCropArea_eq Let_def w0_def h0_def x0_def y0_def ..
  show ?thesis
    unfolding eq crop_in_bounds_def using b by auto
qed

lemma normalizeCropArea_fixed:
  assumes "crop_in_bounds c"
  shows "normalizeCropArea c = c"
proof -
  from assms have b: "0 \<le> crop_x c" "crop_x c \<le> 1" "0 \<le> crop_y c" "crop_y c \<le> 1"
    "0.01 \<le> crop_width c" "crop_width c \<le> 1" "0.01 \<le> crop_height c" "crop_height c \<le> 1"
    "crop_x c + crop_width c \<le> 1" "crop_y c + crop_height c \<le> 1"
    by (simp_all add: crop_in_bounds_def)
  have w: "max 0.01 (max 0 (min 1 (crop_width c))) = crop_width c" using b(5,6) by simp
  have h: "max 0.01 (max 0 (min 1 (crop_height c))) = crop_height c" using b(7,8) by simp
  have x: "max 0 (min 1 (crop_x c)) = crop_x c" using b(1,2) by simp
  have y: "max 0 (min 1 (crop_y c)) = crop_y c" using b(3,4) by simp
  show ?thesis
    unfolding normalizeCropArea_eq Let_def w h x y using b(9,10) by simp
qed

lemma normalizeRotationField_bounds:
  "- 180 \<le> normalizeRotationField v \<and> normalizeRotationField v \<le> 180"
proof -
  define r1 where "r1 = js_rem (js_rem (or_default v 0) 360 + 360) 360"
  define r2 where "r2 = (if r1 > 180 then r1 - 360 else r1)"
  define k where "k = \<lfloor>r2 * 10 + 1 / 2\<rfloor>"
  have "0 \<le> r1 \<and> r1 < 360"
    using normalizeRotation_range [of "or_default v 0"] by (simp add: r1_def normalizeRotation_def)
  then have r2: "- 180 < r2" "r2 \<le> 180" by (auto simp: r2_def)
  have lo: "- 1800 \<le> k" unfolding k_def using r2 by (simp add: le_floor_iff)
  have hi: "k \<le> 1800" unfolding k_def using r2 by (simp add: floor_le_iff)
  have eq: "normalizeRotationField v = of_int k / 10"
    by (simp add: normalizeRotationField_def Let_def r1_def r2_def js_round_def k_def)
  have "(- 1800 :: real) \<le> of_int k" using lo by linarith
  moreover have "of_int k \<le> (1800::real)" using hi by linarith
  ultimately show ?thesis unfolding eq by simp
qed

lemma normalizeRotationField_tenths:
  "\<exists>k::int. normalizeRotationField v = of_int k / 10"
  by (auto simp: normalizeRotationField_def Let_def js_round_def)

lemma normalizeRotationField_fixed:
  assumes "q = of_int k / 10" "- 180 < q" "q \<le> 180"
  shows "normalizeRotationField (Some q) = q"
proof -
  have od: "or_default (Some q) 0 = q" by (simp add: or_default_def)
  have s1: "js_rem q 360 = q" using assms(2,3) by (intro js_rem_small) (simp add: abs_less_iff)
  define r1 where "r1 = js_rem (q + 360) 360"
  have r1: "r1 = (if 0 \<le> q then q else q + 360)"
  proof (cases "0 \<le> q")
    case True
    then have "\<lfloor>(q + 360) / 360\<rfloor> = 1" using assms(3) by (simp add: floor_eq_iff)
    then show ?thesis using True by (simp add: r1_def js_rem_def js_trunc_def)
  next
    case False
    then have "js_rem (q + 360) 360 = q + 360" using assms(2) by (intro js_rem_small) (simp add: abs_less_iff)
    then show ?thesis using False by (simp add: r1_def)
  qed
  have r2: "(if r1 > 180 then r1 - 360 else r1) = q" using assms(2,3) r1 by auto
  have "js_round (q * 10) = of_int k" using assms(1) by (simp add: js_round_eq_iff)
  then have "js_round (q * 10) / 10 = q" using assms(1) by simp
  then show ?thesis
    unfolding normalizeRotationField_def Let_def od s1 r1_def [symmetric] r2 .
qed

lemma normalizeScaleField_bounds: "10 \<le> normalizeScaleField v \<and> normalizeScaleField v \<le> 500"
  by (simp add: normalizeScaleField_def Let_def)

lemma normalizeOffsetField_bounds: "0 \<le> m \<Longrightarrow> \<bar>normalizeOffsetField m v\<bar> \<le> m"
  by (simp add: normalizeOffsetField_def Let_def abs_mult abs_sgn_eq)

lemma normalizeScaleField_fixed: "10 \<le> s \<Longrightarrow> s \<le> 500 \<Longrightarrow> normalizeScaleField (Some s) = s"
  by (auto simp add: normalizeScaleField_def Let_def or_default_def)

lemma normalizeOffsetField_fixed: "\<bar>v\<bar> \<le> m \<Longrightarrow> normalizeOffsetField m (Some v) = v"
  by (auto simp add: normalizeOffsetField_def Let_def or_default_def)

lemma rot_18004: "normalizeRotationField (Some 180.04) = - 180"
proof -
  have od: "or_default (Some 180.04) 0 = 180.04" by (simp add: or_default_def)
  have s1: "js_rem 180.04 360 = 180.04" by (intro js_rem_small) simp
  have s2: "js_rem (180.04 + 360) 360 = 180.04" by (simp add: js_rem_def js_trunc_def)
  have s3: "js_round ((180.04 - 360) * 10) = of_int (- 1800)"
    unfolding js_round_eq_iff by simp
  show ?thesis
    unfolding normalizeRotationField_def Let_def od s1 s2 using s3 by simp
qed

lemma rot_m180: "normalizeRotationField (Some (- 180)) = 180"
proof -
  have od: "or_default (Some (- 180)) 0 = - 180" by (simp add: or_default_def)
  have s1: "js_rem (- 180) 360 = - 180" by (intro js_rem_small) simp
  have s2: "js_rem (- 180 + 360) 360 = 180" by (simp add: js_rem_def js_trunc_def)
  have s3: "js_round (180 * 10) = of_int 1800"
    unfolding js_round_eq_iff by simp
  show ?thesis
    unfolding normalizeRotationField_def Let_def od s1 s2 using s3 by simp
qed

section \<open>Rotation-space mapper: the quarter-turn formulas\<close>

text \<open>
  Claim C7. Mapping a crop given in the rotated (visual) space back to the original
  page at 90 degrees follows \<open>x' = 1 - (y + h)\<close>, \<open>y' = x\<close>, \<open>w' = h\<close>,
  \<open>h' = w\<close>; the crop \<open>{0.1, 0.2, 0.3, 0.4}\<close> is mapped to
  \<open>{0.4, 0.1, 0.4, 0.3}\<close>.
\<close>

theorem remapCropForRotation_90:
  "remapCropForRotation c 90 =
     \<lparr>crop_x = 1 - (crop_y c + crop_height c), crop_y = crop_x c,
      crop_width = crop_height c, crop_height = crop_width c\<rparr>
   \<and> remapCropForRotation
         \<lparr>crop_x = 0.1, crop_y = 0.2, crop_width = 0.3, crop_height = 0.4\<rparr> 90
       = \<lparr>crop_x = 0.4, crop_y = 0.1, crop_width = 0.4, crop_height = 0.3\<rparr>"
  by (simp add: remapCropForRotation_def remapCropForRotation_logged_def rotationCase_90)

text \<open>
  Claim C2. For rotations \<open>r1\<close> and \<open>r2\<close> among 0, 90, 180 and 270, remapping a
  crop from \<open>r1\<close>-space to \<open>r2\<close>-space and back returns the crop it started from.
  Over the exact numbers of this model the round trip is an equality in every field, for
  every crop, so in particular each field of an in-bounds crop comes back within
  \<open>1e-9\<close>.
\<close>

theorem remapCropBetweenRotations_round_trip:
  assumes "r1 \<in> {0, 90, 180, 270}" and "r2 \<in> {0, 90, 180, 270}"
  shows "remapCropBetweenRotations (remapCropBetweenRotations c r1 r2) r2 r1 = c"
  using assms
  by (auto simp: remapCropBetweenRotations_def remapCropForRotation_def
      remapCropForRotation_logged_def forwardMapCropToRotation_def
      forwardMapCropToRotation_logged_def
      rotationCase_0 rotationCase_90 rotationCase_180 rotationCase_270)

text \<open>The round trip between 90 and 270 degrees, on a concrete crop.\<close>

theorem remapCropBetweenRotations_round_trip_witness:
  "(90::real) \<in> {0, 90, 180, 270} \<and> (270::real) \<in> {0, 90, 180, 270}
   \<and> remapCropBetweenRotations
        (remapCropBetweenRotations
           \<lparr>crop_x = 0.1, crop_y = 0.2, crop_width = 0.3, crop_height = 0.4\<rparr> 90 270) 270 90
       = \<lparr>crop_x = 0.1, crop_y = 0.2, crop_width = 0.3, crop_height = 0.4\<rparr>"
  using remapCropBetweenRotations_round_trip
    [of 90 270 "\<lparr>crop_x = 0.1, crop_y = 0.2, crop_width = 0.3, crop_height = 0.4\<rparr>"]
  by simp

section \<open>Normalizer: bounds and idempotence\<close>



text \<open>
  A second pass of the normalizer changes nothing as long as the first pass did not
  return the rotation \<open>-180\<close>.
\<close>

lemma normalizeEditHistory_idempotent_unless_minus_180:
  assumes "0 \<le> dim_width d" and "0 \<le> dim_height d"
    and "eh_rotation (normalizeEditHistory d e) \<noteq> Some (- 180)"
  shows "normalizeEditHistory d (Some (normalizeEditHistory d e)) = normalizeEditHistory d e"
proof -
  have rot0: "normalizeRotationField (Some 0) = 0"
    using normalizeRotationField_fixed [of 0 0] by simp
  show ?thesis
  proof (cases e)
    case None
    then show ?thesis using assms(1,2) rot0
      by (simp add: normalizeEditHistory_def normalizeScaleField_fixed normalizeOffsetField_fixed)
  next
    case (Some h)
    define q where "q = normalizeRotationField (eh_rotation h)"
    have "q \<noteq> - 180" using assms(3) by (simp add: Some normalizeEditHistory_def q_def)
    moreover have "- 180 \<le> q" "q \<le> 180"
      using normalizeRotationField_bounds [of "eh_rotation h"] by (simp_all add: q_def)
    moreover obtain k :: int where "q = of_int k / 10"
      using normalizeRotationField_tenths [of "eh_rotation h"] by (auto simp: q_def)
    ultimately have rot: "normalizeRotationField (Some q) = q"
      by (intro normalizeRotationField_fixed [of q k]) simp_all
    have crop: "map_option normalizeCropArea (map_option normalizeCropArea (eh_cropArea h))
        = map_option normalizeCropArea (eh_cropArea h)"
      by (cases "eh_cropArea h") (simp_all add: normalizeCropArea_fixed normalizeCropArea_bounds)
    have sc: "normalizeScaleField (Some (normalizeScaleField (eh_scale h))) = normalizeScaleField (eh_scale h)"
      using normalizeScaleField_bounds [of "eh_scale h"] by (simp add: normalizeScaleField_fixed)
    have ox: "normalizeOffsetField (dim_width d * 0.5) (Some (normalizeOffsetField (dim_width d * 0.5) (eh_offsetX h)))
        = normalizeOffsetField (dim_width d * 0.5) (eh_offsetX h)"
      using assms(1) by (intro normalizeOffsetField_fixed normalizeOffsetField_bounds) simp
    have oy: "normalizeOffsetField (dim_height d * 0.5) (Some (normalizeOffsetField (dim_height d * 0.5) (eh_offsetY h)))
        = normalizeOffsetField (dim_height d * 0.5) (eh_offsetY h)"
      using assms(2) by (intro normalizeOffsetField_fixed normalizeOffsetField_bounds) simp
    show ?thesis
      unfolding Some normalizeEditHistory_def Let_def
      using rot crop sc ox oy by (simp add: q_def)
  qed
qed

lemma rot_18004_reduced: "normalizeRotationField (Some (4501 / 25)) = - 180"
  using rot_18004 by simp

text \<open>
  Claim C3. The normalizer is meant to be idempotent. Rounding to a tenth of a degree
  comes after the reduction into \<open>(-180, 180]\<close>, so an angle just above 180 is
  reduced to just above \<open>-180\<close> and then rounded to \<open>-180\<close> itself, which a second pass
  reduces to \<open>180\<close>. For the page \<open>{595, 842}\<close> and the edit with rotation
  \<open>180.04\<close> the first pass returns rotation \<open>-180\<close> and the second pass returns
  rotation \<open>180\<close>.
\<close>

theorem normalizeEditHistory_not_idempotent:
  "normalizeEditHistory \<lparr>dim_width = 595, dim_height = 842\<rparr>
     (Some \<lparr>eh_cropArea = None, eh_rotation = Some 180.04, eh_scale = Some 100,
            eh_offsetX = Some 0, eh_offsetY = Some 0\<rparr>)
   = \<lparr>eh_cropArea = None, eh_rotation = Some (- 180), eh_scale = Some 100,
      eh_offsetX = Some 0, eh_offsetY = Some 0\<rparr>
   \<and> normalizeEditHistory \<lparr>dim_width = 595, dim_height = 842\<rparr>
     (Some (normalizeEditHistory \<lparr>dim_width = 595, dim_height = 842\<rparr>
     (Some \<lparr>eh_cropArea = None, eh_rotation = Some 180.04, eh_scale = Some 100,
            eh_offsetX = Some 0, eh_offsetY = Some 0\<rparr>)))
   = \<lparr>eh_cropArea = None, eh_rotation = Some 180, eh_scale = Some 100,
      eh_offsetX = Some 0, eh_offsetY = Some 0\<rparr>
   \<and> normalizeEditHistory \<lparr>dim_width = 595, dim_height = 842\<rparr>
     (Some (normalizeEditHistory \<lparr>dim_width = 595, dim_height = 842\<rparr>
     (Some \<lparr>eh_cropArea = None, eh_rotation = Some 180.04, eh_scale = Some 100,
            eh_offsetX = Some 0, eh_offsetY = Some 0\<rparr>)))
   \<noteq> normalizeEditHistory \<lparr>dim_width = 595, dim_height = 842\<rparr>
     (Some \<lparr>eh_cropArea = None, eh_rotation = Some 180.04, eh_scale = Some 100,
            eh_offsetX = Some 0, eh_offsetY = Some 0\<rparr>)"
  by (simp add: normalizeEditHistory_def rot_18004_reduced rot_m180 normalizeScaleField_fixed
      normalizeOffsetField_fixed)


section \<open>Rotation-space mapper: angles that are no multiple of 90\<close>

text \<open>
  Claim C5, as amended. For every crop and every rotation angle, a multiple of 90 or not,
  both mapping functions reduce the angle into \<open>[0, 360)\<close>, snap it to the nearest
  multiple of 90 (a tie going up) and apply the formula of that quarter turn: the crop
  comes back unchanged only when the reduced angle is below 45 or at least 315, and no
  warning is recorded for any angle.
\<close>

theorem remap_snaps_to_quarter_turn:
  "remapCropForRotation_logged c r =
     (let n = normalizeRotation r in
      if n < 45 \<or> 315 \<le> n then (c, [])
      else if n < 135 then
        (\<lparr>crop_x = 1 - (crop_y c + crop_height c), crop_y = crop_x c,
          crop_width = crop_height c, crop_height = crop_width c\<rparr>, [])
      else if n < 225 then
        (\<lparr>crop_x = 1 - (crop_x c + crop_width c), crop_y = 1 - (crop_y c + crop_height c),
          crop_width = crop_width c, crop_height = crop_height c\<rparr>, [])
      else
        (\<lparr>crop_x = crop_y c, crop_y = 1 - (crop_x c + crop_width c),
          crop_width = crop_height c, crop_height = crop_width c\<rparr>, []))
   \<and> forwardMapCropToRotation_logged c r =
     (let n = normalizeRotation r in
      if n < 45 \<or> 315 \<le> n then (c, [])
      else if n < 135 then
        (\<lparr>crop_x = crop_y c, crop_y = 1 - (crop_x c + crop_width c),
          crop_width = crop_height c, crop_height = crop_width c\<rparr>, [])
      else if n < 225 then
        (\<lparr>crop_x = 1 - (crop_x c + crop_width c), crop_y = 1 - (crop_y c + crop_height c),
          crop_width = crop_width c, crop_height = crop_height c\<rparr>, [])
      else
        (\<lparr>crop_x = 1 - (crop_y c + crop_height c), crop_y = crop_x c,
          crop_width = crop_height c, crop_height = crop_width c\<rparr>, []))"
  unfolding remapCropForRotation_logged_def forwardMapCropToRotation_logged_def
    rotationCase_cases Let_def
  by simp

lemma normalizeRotation_45: "normalizeRotation 45 = 45"
  by (simp add: normalizeRotation_def js_rem_def js_trunc_def)

text \<open>At 45 degrees both functions apply their 90 degree formula.\<close>

theorem remap_snaps_to_quarter_turn_witness:
  "remapCropForRotation_logged
     \<lparr>crop_x = 0.1, crop_y = 0.2, crop_width = 0.3, crop_height = 0.4\<rparr> 45
   = (\<lparr>crop_x = 0.4, crop_y = 0.1, crop_width = 0.4, crop_height = 0.3\<rparr>, [])
   \<and> forwardMapCropToRotation_logged
     \<lparr>crop_x = 0.1, crop_y = 0.2, crop_width = 0.3, crop_height = 0.4\<rparr> 45
   = (\<lparr>crop_x = 0.2, crop_y = 0.6, crop_width = 0.4, crop_height = 0.3\<rparr>, [])"
  using remap_snaps_to_quarter_turn
    [of "\<lparr>crop_x = 0.1, crop_y = 0.2, crop_width = 0.3, crop_height = 0.4\<rparr>" 45]
  by (simp add: normalizeRotation_45)

text \<open>
  At 45 degrees, which is no multiple of 90, both functions apply the formula of the
  90 degree case and record no warning: the crop is not returned unchanged.
\<close>

theorem non_quarter_turn_counterexample:
  "fst (remapCropForRotation_logged
          \<lparr>crop_x = 0.1, crop_y = 0.2, crop_width = 0.3, crop_height = 0.4\<rparr> 45)
     \<noteq> \<lparr>crop_x = 0.1, crop_y = 0.2, crop_width = 0.3, crop_height = 0.4\<rparr>
   \<and> snd (remapCropForRotation_logged
          \<lparr>crop_x = 0.1, crop_y = 0.2, crop_width = 0.3, crop_height = 0.4\<rparr> 45) = []
   \<and> fst (forwardMapCropToRotation_logged
          \<lparr>crop_x = 0.1, crop_y = 0.2, crop_width = 0.3, crop_height = 0.4\<rparr> 45)
     \<noteq> \<lparr>crop_x = 0.1, crop_y = 0.2, crop_width = 0.3, crop_height = 0.4\<rparr>
   \<and> snd (forwardMapCropToRotation_logged
          \<lparr>crop_x = 0.1, crop_y = 0.2, crop_width = 0.3, crop_height = 0.4\<rparr> 45) = []"
  by (simp add: remapCropForRotation_logged_def forwardMapCropToRotation_logged_def
      rotationCase_def normalizeRotation_45 js_round_def)

section \<open>Affine composer\<close>

text \<open>
  Claim C9. \<open>buildAffineMatrix\<close> returns \<open>a = scale * cos\<close>, \<open>b = scale * sin\<close>,
  \<open>c = - scale * sin\<close> and \<open>d = scale * cos\<close> of the angle
  \<open>- rotation * pi / 180\<close>, and a translation \<open>e\<close>, \<open>f\<close> under which the matrix
  sends the center to the center moved by the offset.
\<close>

theorem buildAffineMatrix_maps_center:
  "am_a (buildAffineMatrix centerX centerY rotation scale offsetX offsetY)
     = scale * cos (- rotation * pi / 180)
   \<and> am_b (buildAffineMatrix centerX centerY rotation scale offsetX offsetY)
     = scale * sin (- rotation * pi / 180)
   \<and> am_c (buildAffineMatrix centerX centerY rotation scale offsetX offsetY)
     = - scale * sin (- rotation * pi / 180)
   \<and> am_d (buildAffineMatrix centerX centerY rotation scale offsetX offsetY)
     = scale * cos (- rotation * pi / 180)
   \<and> am_a (buildAffineMatrix centerX centerY rotation scale offsetX offsetY) * centerX
     + am_c (buildAffineMatrix centerX centerY rotation scale offsetX offsetY) * centerY
     + am_e (buildAffineMatrix centerX centerY rotation scale offsetX offsetY)
     = centerX + offsetX
   \<and> am_b (buildAffineMatrix centerX centerY rotation scale offsetX offsetY) * centerX
     + am_d (buildAffineMatrix centerX centerY rotation scale offsetX offsetY) * centerY
     + am_f (buildAffineMatrix centerX centerY rotation scale offsetX offsetY)
     = centerY + offsetY"
  by (simp add: buildAffineMatrix_def Let_def algebra_simps)

section \<open>Transform builder: no auto-fit without rotation\<close>

lemma buildCanonicalTransform_crop_only:
  "gt_scaleToFit (fst (buildCanonicalTransform \<lparr>dim_width = 595, dim_height = 842\<rparr> td
          (Some \<lparr>eh_cropArea = Some \<lparr>crop_x = 0, crop_y = 0, crop_width = 0.5, crop_height = 0.5\<rparr>,
                 eh_rotation = Some 0, eh_scale = Some 100,
                 eh_offsetX = offX, eh_offsetY = offY\<rparr>))) = 1
     \<and> gt_sourceRect (fst (buildCanonicalTransform \<lparr>dim_width = 595, dim_height = 842\<rparr> td
          (Some \<lparr>eh_cropArea = Some \<lparr>crop_x = 0, crop_y = 0, crop_width = 0.5, crop_height = 0.5\<rparr>,
                 eh_rotation = Some 0, eh_scale = Some 100,
                 eh_offsetX = offX, eh_offsetY = offY\<rparr>)))
         = \<lparr>rect_x = 0, rect_y = 0, rect_width = 297.5, rect_height = 421\<rparr>
     \<and> gt_drawWidth (fst (buildCanonicalTransform \<lparr>dim_width = 595, dim_height = 842\<rparr> td
          (Some \<lparr>eh_cropArea = Some \<lparr>crop_x = 0, crop_y = 0, crop_width = 0.5, crop_height = 0.5\<rparr>,
                 eh_rotation = Some 0, eh_scale = Some 100,
                 eh_offsetX = offX, eh_offsetY = offY\<rparr>))) = 297.5"
proof -
  have rot0: "normalizeRotationField (Some 0) = 0"
    using normalizeRotationField_fixed [of 0 0] by simp
  have crop: "normalizeCropArea \<lparr>crop_x = 0, crop_y = 0, crop_width = 0.5, crop_height = 0.5\<rparr>
      = \<lparr>crop_x = 0, crop_y = 0, crop_width = 0.5, crop_height = 0.5\<rparr>"
    by (intro normalizeCropArea_fixed) (simp add: crop_in_bounds_def)
  have crop': "normalizeCropArea \<lparr>crop_x = 0, crop_y = 0, crop_width = 1 / 2, crop_height = 1 / 2\<rparr>
      = \<lparr>crop_x = 0, crop_y = 0, crop_width = 1 / 2, crop_height = 1 / 2\<rparr>"
    using crop by simp
  show ?thesis
    by (simp add: buildCanonicalTransform_def normalizeEditHistory_def buildGeometricTransform_def
        destructure_default_def Let_def rot0 crop' normalizeScaleField_fixed)
qed

text \<open>
  Claim C6. An edit whose rotation is 0 (or absent, which defaults to 0) gets
  \<open>scaleToFit = 1\<close> from \<open>buildGeometricTransform\<close>, as does an absent edit. So
  \<open>buildCanonicalTransform d d None\<close> has \<open>finalScale = 1\<close>, the whole page as
  source rectangle and the page's width and height as draw size; and the original
  \<open>{595, 842}\<close> with crop \<open>{0, 0, 0.5, 0.5}\<close>, rotation 0 and scale 100 has
  \<open>scaleToFit = 1\<close>, source rectangle \<open>{0, 0, 297.5, 421}\<close> and draw width
  \<open>297.5\<close>, from \<open>buildGeometricTransform\<close> and from
  \<open>buildCanonicalTransform\<close> alike, whatever the target page and the offsets.
\<close>

theorem crop_only_is_not_rescaled:
  assumes "eh_rotation e = None \<or> eh_rotation e = Some 0"
  shows "gt_scaleToFit (buildGeometricTransform od td (Some e)) = 1
     \<and> gt_scaleToFit (buildGeometricTransform od td None) = 1
     \<and> gt_finalScale (fst (buildCanonicalTransform d d None)) = 1
     \<and> gt_sourceRect (fst (buildCanonicalTransform d d None))
         = \<lparr>rect_x = 0, rect_y = 0, rect_width = dim_width d, rect_height = dim_height d\<rparr>
     \<and> gt_drawWidth (fst (buildCanonicalTransform d d None)) = dim_width d
     \<and> gt_drawHeight (fst (buildCanonicalTransform d d None)) = dim_height d
     \<and> gt_scaleToFit (buildGeometricTransform \<lparr>dim_width = 595, dim_height = 842\<rparr> td
          (Some \<lparr>eh_cropArea = Some \<lparr>crop_x = 0, crop_y = 0, crop_width = 0.5, crop_height = 0.5\<rparr>,
                 eh_rotation = Some 0, eh_scale = Some 100,
                 eh_offsetX = offX, eh_offsetY = offY\<rparr>)) = 1
     \<and> gt_sourceRect (buildGeometricTransform \<lparr>dim_width = 595, dim_height = 842\<rparr> td
          (Some \<lparr>eh_cropArea = Some \<lparr>crop_x = 0, crop_y = 0, crop_width = 0.5, crop_height = 0.5\<rparr>,
                 eh_rotation = Some 0, eh_scale = Some 100,
                 eh_offsetX = offX, eh_offsetY = offY\<rparr>))
         = \<lparr>rect_x = 0, rect_y = 0, rect_width = 297.5, rect_height = 421\<rparr>
     \<and> gt_drawWidth (buildGeometricTransform \<lparr>dim_width = 595, dim_height = 842\<rparr> td
          (Some \<lparr>eh_cropArea = Some \<lparr>crop_x = 0, crop_y = 0, crop_width = 0.5, crop_height = 0.5\<rparr>,
                 eh_rotation = Some 0, eh_scale = Some 100,
                 eh_offsetX = offX, eh_offsetY = offY\<rparr>)) = 297.5
     \<and> gt_scaleToFit (fst (buildCanonicalTransform \<lparr>dim_width = 595, dim_height = 842\<rparr> td
          (Some \<lparr>eh_cropArea = Some \<lparr>crop_x = 0, crop_y = 0, crop_width = 0.5, crop_height = 0.5\<rparr>,
                 eh_rotation = Some 0, eh_scale = Some 100,
                 eh_offsetX = offX, eh_offsetY = offY\<rparr>))) = 1
     \<and> gt_sourceRect (fst (buildCanonicalTransform \<lparr>dim_width = 595, dim_height = 842\<rparr> td
          (Some \<lparr>eh_cropArea = Some \<lparr>crop_x = 0, crop_y = 0, crop_width = 0.5, crop_height = 0.5\<rparr>,
                 eh_rotation = Some 0, eh_scale = Some 100,
                 eh_offsetX = offX, eh_offsetY = offY\<rparr>)))
         = \<lparr>rect_x = 0, rect_y = 0, rect_width = 297.5, rect_height = 421\<rparr>
     \<and> gt_drawWidth (fst (buildCanonicalTransform \<lparr>dim_width = 595, dim_height = 842\<rparr> td
          (Some \<lparr>eh_cropArea = Some \<lparr>crop_x = 0, crop_y = 0, crop_width = 0.5, crop_height = 0.5\<rparr>,
                 eh_rotation = Some 0, eh_scale = Some 100,
                 eh_offsetX = offX, eh_offsetY = offY\<rparr>))) = 297.5"
  using assms buildCanonicalTransform_crop_only [of td offX offY]
  by (auto simp: buildGeometricTransform_def buildCanonicalTransform_def normalizeEditHistory_def
      destructure_default_def Let_def)

text \<open>An edit with rotation 0 and scale 150 on an A4 page, drawn on a landscape
  target.\<close>

theorem crop_only_is_not_rescaled_witness:
  "(eh_rotation \<lparr>eh_cropArea = None, eh_rotation = Some 0, eh_scale = Some 150,
                 eh_offsetX = Some 10, eh_offsetY = None\<rparr> = None
    \<or> eh_rotation \<lparr>eh_cropArea = None, eh_rotation = Some 0, eh_scale = Some 150,
                 eh_offsetX = Some 10, eh_offsetY = None\<rparr> = Some 0)
   \<and> gt_scaleToFit (buildGeometricTransform \<lparr>dim_width = 595, dim_height = 842\<rparr>
          \<lparr>dim_width = 842, dim_height = 595\<rparr>
          (Some \<lparr>eh_cropArea = None, eh_rotation = Some 0, eh_scale = Some 150,
                 eh_offsetX = Some 10, eh_offsetY = None\<rparr>)) = 1
   \<and> gt_drawWidth (fst (buildCanonicalTransform \<lparr>dim_width = 595, dim_height = 842\<rparr>
          \<lparr>dim_width = 595, dim_height = 842\<rparr> None)) = 595"
  using crop_only_is_not_rescaled
    [of "\<lparr>eh_cropArea = None, eh_rotation = Some 0, eh_scale = Some 150,
          eh_offsetX = Some 10, eh_offsetY = None\<rparr>"
        "\<lparr>dim_width = 595, dim_height = 842\<rparr>" "\<lparr>dim_width = 842, dim_height = 595\<rparr>"
        "\<lparr>dim_width = 595, dim_height = 842\<rparr>"]
  by simp

section \<open>Transform builder: the rotation-only scenario\<close>

lemma normalizeRotation_quarter:
  "normalizeRotation 0 = 0" "normalizeRotation 90 = 90" "normalizeRotation 180 = 180"
  "normalizeRotation 270 = 270"
  by (simp_all add: normalizeRotation_def js_rem_def js_trunc_def)

text \<open>
  Claim C8, as amended. For the original \<open>{595, 842}\<close>, the target \<open>{595, 842}\<close>,
  rotation 90, scale 100 and no crop, \<open>buildGeometricTransform\<close> yields
  \<open>scaleToFit = min (595 / 842) (842 / 595) * 0.90\<close>, which is \<open>0.6360\<close> to four
  places, the same \<open>finalScale\<close>, \<open>drawWidth = 595 * 595 * 0.90 / 842\<close>, which is
  \<open>378.4\<close> to one place, and \<open>drawHeight = 535.5\<close>.
\<close>

theorem scenario_A_values:
  "gt_scaleToFit (buildGeometricTransform \<lparr>dim_width = 595, dim_height = 842\<rparr>
       \<lparr>dim_width = 595, dim_height = 842\<rparr>
       (Some \<lparr>eh_cropArea = None, eh_rotation = Some 90, eh_scale = Some 100,
              eh_offsetX = Some 0, eh_offsetY = Some 0\<rparr>))
     = min (595 / 842) (842 / 595) * 0.90
   \<and> \<bar>gt_scaleToFit (buildGeometricTransform \<lparr>dim_width = 595, dim_height = 842\<rparr>
       \<lparr>dim_width = 595, dim_height = 842\<rparr>
       (Some \<lparr>eh_cropArea = None, eh_rotation = Some 90, eh_scale = Some 100,
              eh_offsetX = Some 0, eh_offsetY = Some 0\<rparr>)) - 0.6360\<bar> \<le> 0.00005
   \<and> \<bar>gt_finalScale (buildGeometricTransform \<lparr>dim_width = 595, dim_height = 842\<rparr>
       \<lparr>dim_width = 595, dim_height = 842\<rparr>
       (Some \<lparr>eh_cropArea = None, eh_rotation = Some 90, eh_scale = Some 100,
              eh_offsetX = Some 0, eh_offsetY = Some 0\<rparr>)) - 0.6360\<bar> \<le> 0.00005
   \<and> gt_drawWidth (buildGeometricTransform \<lparr>dim_width = 595, dim_height = 842\<rparr>
       \<lparr>dim_width = 595, dim_height = 842\<rparr>
       (Some \<lparr>eh_cropArea = None, eh_rotation = Some 90, eh_scale = Some 100,
              eh_offsetX = Some 0, eh_offsetY = Some 0\<rparr>)) = 595 * 595 * 0.90 / 842
   \<and> \<bar>gt_drawWidth (buildGeometricTransform \<lparr>dim_width = 595, dim_height = 842\<rparr>
       \<lparr>dim_width = 595, dim_height = 842\<rparr>
       (Some \<lparr>eh_cropArea = None, eh_rotation = Some 90, eh_scale = Some 100,
              eh_offsetX = Some 0, eh_offsetY = Some 0\<rparr>)) - 378.4\<bar> \<le> 0.05
   \<and> gt_drawHeight (buildGeometricTransform \<lparr>dim_width = 595, dim_height = 842\<rparr>
       \<lparr>dim_width = 595, dim_height = 842\<rparr>
       (Some \<lparr>eh_cropArea = None, eh_rotation = Some 90, eh_scale = Some 100,
              eh_offsetX = Some 0, eh_offsetY = Some 0\<rparr>)) = 535.5"
  by (simp add: buildGeometricTransform_def destructure_default_def Let_def
      normalizeRotation_quarter)

text \<open>
  The draw size is not \<open>378.2\<close> by \<open>535.6\<close> to the one place these figures are
  given with: the width is off by more than \<open>0.2\<close> and the height by \<open>0.1\<close>.
\<close>

theorem scenario_A_counterexample:
  "\<not> \<bar>gt_drawWidth (buildGeometricTransform \<lparr>dim_width = 595, dim_height = 842\<rparr>
       \<lparr>dim_width = 595, dim_height = 842\<rparr>
       (Some \<lparr>eh_cropArea = None, eh_rotation = Some 90, eh_scale = Some 100,
              eh_offsetX = Some 0, eh_offsetY = Some 0\<rparr>)) - 378.2\<bar> \<le> 0.05
   \<and> \<not> \<bar>gt_drawHeight (buildGeometricTransform \<lparr>dim_width = 595, dim_height = 842\<rparr>
       \<lparr>dim_width = 595, dim_height = 842\<rparr>
       (Some \<lparr>eh_cropArea = None, eh_rotation = Some 90, eh_scale = Some 100,
              eh_offsetX = Some 0, eh_offsetY = Some 0\<rparr>)) - 535.6\<bar> \<le> 0.05
   \<and> 0.2 < \<bar>gt_drawWidth (buildGeometricTransform \<lparr>dim_width = 595, dim_height = 842\<rparr>
       \<lparr>dim_width = 595, dim_height = 842\<rparr>
       (Some \<lparr>eh_cropArea = None, eh_rotation = Some 90, eh_scale = Some 100,
              eh_offsetX = Some 0, eh_offsetY = Some 0\<rparr>)) - 378.2\<bar>"
  by (simp add: buildGeometricTransform_def destructure_default_def Let_def
      normalizeRotation_quarter)

section \<open>Recipe validation\<close>

text \<open>
  Claim C10. Validation is to report every page whose scale lies outside
  \<open>[10, 500]\<close>. The scale test is guarded by the truthiness of the scale, and \<open>0\<close>
  is falsy: a recipe with one page of scale \<open>0\<close>, and nothing else wrong, is returned
  as valid with an empty error list.
\<close>

theorem validateRecipe_accepts_scale_zero:
  "validateRecipe
     \<lparr>rc_version = Some ''1.0'', rc_sourceFileName = Some ''a.pdf'',
      rc_pages = Some [\<lparr>pg_transforms =
         Some \<lparr>tr_rotation = Some 0, tr_scale = Some 0, tr_crop = None\<rparr>\<rparr>]\<rparr>
   = \<lparr>vr_valid = True, vr_errors = []\<rparr>"
  by (simp add: validateRecipe_def validatePage_def falsy_string_def Let_def)

text \<open>
  For every other rule the validator is complete: the page at position \<open>i\<close> gets its
  error for a rotation outside \<open>{0, 90, 180, 270}\<close>, for a scale other than \<open>0\<close>
  outside \<open>[10, 500]\<close>, and for a crop that is degenerate or exceeds the bounds; and the
  result is valid exactly when the error list is empty.
\<close>

lemma validatePages_complete:
  assumes "i < length pages" and "pg_transforms (pages ! i) = Some t"
  shows "(\<forall>r. tr_rotation t = Some r \<and> r \<notin> {0, 90, 180, 270}
            \<longrightarrow> InvalidRotation (k + i + 1) r \<in> set (validatePages k pages))
       \<and> (\<forall>sc. tr_scale t = Some sc \<and> sc \<noteq> 0 \<and> (sc < 10 \<or> sc > 500)
            \<longrightarrow> InvalidScale (k + i + 1) sc \<in> set (validatePages k pages))
       \<and> (\<forall>c. tr_crop t = Some c \<and>
              (crop_x c < 0 \<or> crop_y c < 0 \<or> crop_width c \<le> 0 \<or> crop_height c \<le> 0)
            \<longrightarrow> InvalidCropArea (k + i + 1) \<in> set (validatePages k pages))
       \<and> (\<forall>c. tr_crop t = Some c \<and>
              (crop_x c + crop_width c > 1.01 \<or> crop_y c + crop_height c > 1.01)
            \<longrightarrow> CropExceedsBounds (k + i + 1) \<in> set (validatePages k pages))"
  using assms
proof (induction pages arbitrary: i k)
  case Nil
  then show ?case by simp
next
  case (Cons p ps)
  show ?case
  proof (cases i)
    case 0
    with Cons.prems show ?thesis
      by (auto simp: validatePage_def Let_def)
  next
    case (Suc j)
    with Cons.prems have "j < length ps" "pg_transforms (ps ! j) = Some t" by simp_all
    from Cons.IH [OF this, of "k + 1"] show ?thesis using Suc by simp
  qed
qed

lemma validateRecipe_valid_iff: "vr_valid (validateRecipe r) \<longleftrightarrow> vr_errors (validateRecipe r) = []"
  by (simp add: validateRecipe_def Let_def)

section \<open>Canvas renderer adapter against the engine\<close>

lemma clampRect_inside:
  assumes "0 \<le> px" "0 \<le> py" "1 \<le> w" "1 \<le> h" "px + w \<le> maxW" "py + h \<le> maxH"
  shows "clampRect px py w h maxW maxH
         = \<lparr>rect_x = px, rect_y = py, rect_width = w, rect_height = h\<rparr>"
proof -
  have x: "max 0 (min px (maxW - 1)) = px" using assms(1,3,5) by simp
  have y: "max 0 (min py (maxH - 1)) = py" using assms(2,4,6) by simp
  have w: "max 1 (min w (maxW - px)) = w" using assms(3,5) by simp
  have h: "max 1 (min h (maxH - py)) = h" using assms(4,6) by simp
  show ?thesis unfolding clampRect_def Let_def x y w h ..
qed

lemma fit_factor:
  fixes a b c d :: real
  shows "min (a * 0.95 / c) (b * 0.95 / d) * 0.90 = min (a / c) (b / d) * 0.90 * 0.95"
proof -
  have "min (a * 0.95 / c) (b * 0.95 / d) = min (a / c) (b / d) * 0.95"
    by (simp add: min_def)
  then show ?thesis by simp
qed

lemma plan_sourceRect:
  "rp_sourceRect (renderPageToCanvas_plan target origW origH e)
   = calculateSourceRect (eh_cropArea e) (normalizeRotation (or_default (eh_rotation e) 0)) origW origH"
  by (simp add: renderPageToCanvas_plan_def Let_def)

lemma plan_fitScale:
  "rp_fitScale (renderPageToCanvas_plan target origW origH e)
   = (let rotation = normalizeRotation (or_default (eh_rotation e) 0);
          sourceRect = calculateSourceRect (eh_cropArea e) rotation origW origH;
          isSwapped = (rotation = 90 \<or> rotation = 270);
          contentW = (if isSwapped then rect_height sourceRect else rect_width sourceRect);
          contentH = (if isSwapped then rect_width sourceRect else rect_height sourceRect)
      in min ((dim_width target * 0.95) / contentW) ((dim_height target * 0.95) / contentH))"
  by (simp add: renderPageToCanvas_plan_def Let_def)

lemma engine_sourceRect:
  "gt_sourceRect (buildGeometricTransform od target (Some e))
   = (case eh_cropArea e of
        None \<Rightarrow> \<lparr>rect_x = 0, rect_y = 0, rect_width = dim_width od, rect_height = dim_height od\<rparr>
      | Some c \<Rightarrow>
          (let rotation = destructure_default (eh_rotation e) 0;
               orig = (if rotation \<noteq> 0 then remapCropForRotation c rotation else c)
           in \<lparr>rect_x = crop_x orig * dim_width od, rect_y = crop_y orig * dim_height od,
               rect_width = crop_width orig * dim_width od,
               rect_height = crop_height orig * dim_height od\<rparr>))"
  by (simp add: buildGeometricTransform_def Let_def split: option.splits)

lemma engine_scaleToFit:
  "gt_scaleToFit (buildGeometricTransform od target (Some e))
   = (let rotation = destructure_default (eh_rotation e) 0;
          sourceRect = gt_sourceRect (buildGeometricTransform od target (Some e));
          n = normalizeRotation rotation
      in if rotation \<noteq> 0 then
           (if n = 90 \<or> n = 270
            then min (dim_width target / rect_height sourceRect)
                     (dim_height target / rect_width sourceRect) * 0.90
            else min (dim_width target / rect_width sourceRect)
                     (dim_height target / rect_height sourceRect) * 0.90)
         else 1)"
  by (simp add: buildGeometricTransform_def Let_def)

lemma remapCropForRotation_180:
  "remapCropForRotation c 180 =
     \<lparr>crop_x = 1 - (crop_x c + crop_width c), crop_y = 1 - (crop_y c + crop_height c),
      crop_width = crop_width c, crop_height = crop_height c\<rparr>"
  by (simp add: remapCropForRotation_def remapCropForRotation_logged_def rotationCase_180)

text \<open>
  Claim C1, as amended. Let the rotation be one of 0, 90, 180 and 270 and all
  dimensions positive. Without a crop, and with a crop at rotation 0 or 180 whose pixel
  rectangle lies inside the page and is at least one pixel wide and high, the adapter's
  \<open>calculateSourceRect\<close> and the engine's \<open>buildGeometricTransform\<close> compute the same
  source rectangle. The fit scales are different numbers: the adapter fits at every
  rotation with the factor \<open>0.95\<close>, also at rotation 0, where the engine's
  \<open>scaleToFit\<close> is \<open>1\<close>; at the other rotations the engine fits with the factor
  \<open>0.90\<close>, so that \<open>fitScale * 0.90 = scaleToFit * 0.95\<close>.
\<close>

theorem adapter_agrees_with_engine_up_to_fit:
  assumes rot: "r \<in> {0, 90, 180, 270}"
    and dims: "0 < origW" "0 < origH" "0 < dim_width target" "0 < dim_height target"
    and e: "eh_rotation e = Some r"
    and crop: "case eh_cropArea e of
                 None \<Rightarrow> True
               | Some c \<Rightarrow> (r = 0 \<or> r = 180) \<and> 0 \<le> crop_x c \<and> 0 \<le> crop_y c
                    \<and> crop_x c + crop_width c \<le> 1 \<and> crop_y c + crop_height c \<le> 1
                    \<and> 1 \<le> crop_width c * origW \<and> 1 \<le> crop_height c * origH"
  shows "rp_sourceRect (renderPageToCanvas_plan target origW origH e)
           = gt_sourceRect (buildGeometricTransform
               \<lparr>dim_width = origW, dim_height = origH\<rparr> target (Some e))
       \<and> (if r = 0
          then gt_scaleToFit (buildGeometricTransform
                 \<lparr>dim_width = origW, dim_height = origH\<rparr> target (Some e)) = 1
             \<and> rp_fitScale (renderPageToCanvas_plan target origW origH e)
               = min (dim_width target * 0.95
                        / rect_width (rp_sourceRect (renderPageToCanvas_plan target origW origH e)))
                     (dim_height target * 0.95
                        / rect_height (rp_sourceRect (renderPageToCanvas_plan target origW origH e)))
          else rp_fitScale (renderPageToCanvas_plan target origW origH e) * 0.90
               = gt_scaleToFit (buildGeometricTransform
                   \<lparr>dim_width = origW, dim_height = origH\<rparr> target (Some e)) * 0.95)"
proof -
  let ?od = "\<lparr>dim_width = origW, dim_height = origH\<rparr>"
  have rd: "or_default (eh_rotation e) 0 = r" "destructure_default (eh_rotation e) 0 = r"
    using e by (auto simp: or_default_def destructure_default_def)
  have nr: "normalizeRotation r = r" using rot normalizeRotation_quarter by auto
  have sr: "rp_sourceRect (renderPageToCanvas_plan target origW origH e)
           = gt_sourceRect (buildGeometricTransform ?od target (Some e))"
  proof (cases "eh_cropArea e")
    case None
    then show ?thesis
      by (simp add: plan_sourceRect engine_sourceRect calculateSourceRect_def)
  next
    case (Some c)
    with crop have c: "r = 0 \<or> r = 180" "0 \<le> crop_x c" "0 \<le> crop_y c"
      "crop_x c + crop_width c \<le> 1" "crop_y c + crop_height c \<le> 1"
      "1 \<le> crop_width c * origW" "1 \<le> crop_height c * origH" by simp_all
    have xw: "crop_x c * origW + crop_width c * origW \<le> origW"
      using mult_right_mono [OF c(4), of origW] dims(1) by (simp add: algebra_simps)
    have yh: "crop_y c * origH + crop_height c * origH \<le> origH"
      using mult_right_mono [OF c(5), of origH] dims(2) by (simp add: algebra_simps)
    have x0: "0 \<le> crop_x c * origW" using c(2) dims(1) by simp
    have y0: "0 \<le> crop_y c * origH" using c(3) dims(2) by simp
    from c(1) show ?thesis
    proof
      assume r0: "r = 0"
      have "clampRect (crop_x c * origW) (crop_y c * origH) (crop_width c * origW)
              (crop_height c * origH) origW origH
            = \<lparr>rect_x = crop_x c * origW, rect_y = crop_y c * origH,
               rect_width = crop_width c * origW, rect_height = crop_height c * origH\<rparr>"
        using x0 y0 c(6,7) xw yh by (intro clampRect_inside) simp_all
      then show ?thesis
        by (simp add: plan_sourceRect engine_sourceRect calculateSourceRect_def Some rd nr r0
            normalizeRotation_quarter Let_def)
    next
      assume r180: "r = 180"
      have "clampRect (origW - crop_x c * origW - crop_width c * origW)
              (origH - crop_y c * origH - crop_height c * origH)
              (crop_width c * origW) (crop_height c * origH) origW origH
            = \<lparr>rect_x = origW - crop_x c * origW - crop_width c * origW,
               rect_y = origH - crop_y c * origH - crop_height c * origH,
               rect_width = crop_width c * origW, rect_height = crop_height c * origH\<rparr>"
        using x0 y0 c(6,7) xw yh by (intro clampRect_inside) simp_all
      then show ?thesis
        by (simp add: plan_sourceRect engine_sourceRect calculateSourceRect_def Some rd r180
            normalizeRotation_quarter Let_def remapCropForRotation_180 algebra_simps)
    qed
  qed
  show ?thesis
  proof (cases "r = 0")
    case True
    have fit1: "gt_scaleToFit (buildGeometricTransform ?od target (Some e)) = 1"
      using True by (simp add: engine_scaleToFit rd Let_def)
    have fit2: "rp_fitScale (renderPageToCanvas_plan target origW origH e)
               = min (dim_width target * 0.95
                        / rect_width (rp_sourceRect (renderPageToCanvas_plan target origW origH e)))
                     (dim_height target * 0.95
                        / rect_height (rp_sourceRect (renderPageToCanvas_plan target origW origH e)))"
      using True
      by (simp add: plan_fitScale plan_sourceRect rd normalizeRotation_quarter Let_def)
    show ?thesis using True sr fit1 fit2 by simp
  next
    case False
    define S where "S = gt_sourceRect (buildGeometricTransform ?od target (Some e))"
    have cs: "calculateSourceRect (eh_cropArea e) r origW origH = S"
      using sr by (simp add: plan_sourceRect rd nr S_def)
    have pf: "rp_fitScale (renderPageToCanvas_plan target origW origH e)
        = (if r = 90 \<or> r = 270
           then min (dim_width target * 0.95 / rect_height S) (dim_height target * 0.95 / rect_width S)
           else min (dim_width target * 0.95 / rect_width S) (dim_height target * 0.95 / rect_height S))"
      unfolding plan_fitScale Let_def rd nr cs by simp
    have ef: "gt_scaleToFit (buildGeometricTransform ?od target (Some e))
        = (if r = 90 \<or> r = 270
           then min (dim_width target / rect_height S) (dim_height target / rect_width S) * 0.90
           else min (dim_width target / rect_width S) (dim_height target / rect_height S) * 0.90)"
      unfolding engine_scaleToFit Let_def rd nr S_def [symmetric] using False by simp
    have "rp_fitScale (renderPageToCanvas_plan target origW origH e) * 0.90
               = gt_scaleToFit (buildGeometricTransform ?od target (Some e)) * 0.95"
      unfolding pf ef by (cases "r = 90 \<or> r = 270") (simp_all only: if_True if_False fit_factor)
    then show ?thesis using sr False by simp
  qed
qed


text \<open>An A4 page rotated by 180 degrees with the crop \<open>{0.1, 0.2, 0.3, 0.4}\<close>.\<close>

theorem adapter_agrees_with_engine_up_to_fit_witness:
  "(180::real) \<in> {0, 90, 180, 270}
   \<and> rp_sourceRect (renderPageToCanvas_plan \<lparr>dim_width = 595, dim_height = 842\<rparr> 595 842
        \<lparr>eh_cropArea = Some \<lparr>crop_x = 0.1, crop_y = 0.2, crop_width = 0.3, crop_height = 0.4\<rparr>,
         eh_rotation = Some 180, eh_scale = Some 100, eh_offsetX = None, eh_offsetY = None\<rparr>)
     = gt_sourceRect (buildGeometricTransform \<lparr>dim_width = 595, dim_height = 842\<rparr>
        \<lparr>dim_width = 595, dim_height = 842\<rparr>
        (Some \<lparr>eh_cropArea = Some \<lparr>crop_x = 0.1, crop_y = 0.2, crop_width = 0.3, crop_height = 0.4\<rparr>,
         eh_rotation = Some 180, eh_scale = Some 100, eh_offsetX = None, eh_offsetY = None\<rparr>))
   \<and> rp_fitScale (renderPageToCanvas_plan \<lparr>dim_width = 595, dim_height = 842\<rparr> 595 842
        \<lparr>eh_cropArea = Some \<lparr>crop_x = 0.1, crop_y = 0.2, crop_width = 0.3, crop_height = 0.4\<rparr>,
         eh_rotation = Some 180, eh_scale = Some 100, eh_offsetX = None, eh_offsetY = None\<rparr>) * 0.90
     = gt_scaleToFit (buildGeometricTransform \<lparr>dim_width = 595, dim_height = 842\<rparr>
        \<lparr>dim_width = 595, dim_height = 842\<rparr>
        (Some \<lparr>eh_cropArea = Some \<lparr>crop_x = 0.1, crop_y = 0.2, crop_width = 0.3, crop_height = 0.4\<rparr>,
         eh_rotation = Some 180, eh_scale = Some 100, eh_offsetX = None, eh_offsetY = None\<rparr>)) * 0.95"
  using adapter_agrees_with_engine_up_to_fit
    [of 180 595 842 "\<lparr>dim_width = 595, dim_height = 842\<rparr>"
        "\<lparr>eh_cropArea = Some \<lparr>crop_x = 0.1, crop_y = 0.2, crop_width = 0.3, crop_height = 0.4\<rparr>,
         eh_rotation = Some 180, eh_scale = Some 100, eh_offsetX = None, eh_offsetY = None\<rparr>"]
  by simp

text \<open>
  On an A4 page without a crop the two fit scales differ at rotation 90 and at rotation
  0, and with the crop \<open>{0.1, 0.2, 0.3, 0.4}\<close> at rotation 90 the two source
  rectangles differ.
\<close>

theorem adapter_diverges_from_engine_counterexample:
  "rp_fitScale (renderPageToCanvas_plan \<lparr>dim_width = 595, dim_height = 842\<rparr> 595 842
        \<lparr>eh_cropArea = None, eh_rotation = Some 90, eh_scale = Some 100,
         eh_offsetX = Some 0, eh_offsetY = Some 0\<rparr>)
     \<noteq> gt_scaleToFit (buildGeometricTransform \<lparr>dim_width = 595, dim_height = 842\<rparr>
        \<lparr>dim_width = 595, dim_height = 842\<rparr>
        (Some \<lparr>eh_cropArea = None, eh_rotation = Some 90, eh_scale = Some 100,
         eh_offsetX = Some 0, eh_offsetY = Some 0\<rparr>))
   \<and> rp_fitScale (renderPageToCanvas_plan \<lparr>dim_width = 595, dim_height = 842\<rparr> 595 842
        \<lparr>eh_cropArea = None, eh_rotation = Some 0, eh_scale = Some 100,
         eh_offsetX = Some 0, eh_offsetY = Some 0\<rparr>)
     \<noteq> gt_scaleToFit (buildGeometricTransform \<lparr>dim_width = 595, dim_height = 842\<rparr>
        \<lparr>dim_width = 595, dim_height = 842\<rparr>
        (Some \<lparr>eh_cropArea = None, eh_rotation = Some 0, eh_scale = Some 100,
         eh_offsetX = Some 0, eh_offsetY = Some 0\<rparr>))
   \<and> rp_sourceRect (renderPageToCanvas_plan \<lparr>dim_width = 595, dim_height = 842\<rparr> 595 842
        \<lparr>eh_cropArea = Some \<lparr>crop_x = 0.1, crop_y = 0.2, crop_width = 0.3, crop_height = 0.4\<rparr>,
         eh_rotation = Some 90, eh_scale = Some 100, eh_offsetX = Some 0, eh_offsetY = Some 0\<rparr>)
     \<noteq> gt_sourceRect (buildGeometricTransform \<lparr>dim_width = 595, dim_height = 842\<rparr>
        \<lparr>dim_width = 595, dim_height = 842\<rparr>
        (Some \<lparr>eh_cropArea = Some \<lparr>crop_x = 0.1, crop_y = 0.2, crop_width = 0.3, crop_height = 0.4\<rparr>,
         eh_rotation = Some 90, eh_scale = Some 100, eh_offsetX = Some 0, eh_offsetY = Some 0\<rparr>))"
  by (simp add: plan_fitScale plan_sourceRect engine_scaleToFit engine_sourceRect
      calculateSourceRect_def clampRect_def or_default_def destructure_default_def
      normalizeRotation_quarter remapCropForRotation_def remapCropForRotation_logged_def
      rotationCase_90 Let_def)


end
